theory Spec2Isabelle
  imports
    Complex_Main
    "HOL-Library.Char_ord"
    "HOL-Library.List_Lexorder"
    "HOL-Library.Multiset"
    "HOL-Library.AList"
begin

section \<open>year\_collator.py: consolidation of yearly GLAM outputs\<close>

text \<open>
  The development follows \<^verbatim>\<open>year_collator.py\<close> function by function. Python
  exceptions are values of \<open>error\<close>; a function that touches the disk takes the file
  system and returns it, together with its result or the exception it raised.
  Floating-point numbers are modelled by the rationals they denote: every coordinate
  the properties below speak of is a multiple of one half, which binary floating
  point represents, subtracts, doubles and halves without rounding. NaN and the
  infinities are outside the model.
\<close>

subsection \<open>Exceptions\<close>

datatype error =
    FileError
  | ArgumentsError
  | KeyError
  | IndexError
  | ValueError
  | UnboundLocalError
  | ZeroDivisionError
  | FileNotFoundError
  | FileExistsError
  | IsADirectoryError
  | NCOException
  | NonTermination

subsection \<open>Decimal numerals: \<^verbatim>\<open>str(i)\<close>\<close>

definition digit_char :: "nat \<Rightarrow> char" where
  "digit_char d = ''0123456789'' ! d"

fun str :: "nat \<Rightarrow> string" where
  "str n = (if n < 10 then [digit_char n] else str (n div 10) @ [digit_char (n mod 10)])"

declare str.simps [simp del]

subsection \<open>Tables, arrays and cubes\<close>

text \<open>
  A data frame as \<^verbatim>\<open>pd.read_csv(path, sep=' ')\<close> returns it: the header and the
  rows. The header \<^verbatim>\<open>'Vk'\<close> is the number \<open>k\<close>, so \<^verbatim>\<open>int(col[1:])\<close> is the
  label itself. Row \<open>i\<close> carries the index label \<open>i\<close>.
\<close>

record dataframe =
  columns :: "nat list"
  rows :: "rat list list"

type_synonym ndarray = "rat list list"

text \<open>
  A numpy masked array: the data, the mask, and the fill value. Of the eight axes of
  the source's array only latitude and longitude are longer than one, so an array is a
  list of latitude rows.
\<close>

record masked_array =
  ma_data :: ndarray
  ma_mask :: "bool list list"
  fill_value :: rat

record cube =
  var_name :: string
  long_name :: string
  units :: string
  time :: rat
  latitude :: "rat list"
  longitude :: "rat list"
  prod_lev :: rat
  irr_lev :: rat
  rcp_dim :: rat
  model_dim :: rat
  crop_dim :: rat
  cube_data :: masked_array

subsection \<open>The file system\<close>

text \<open>
  A file holds a raw table that \<^verbatim>\<open>read_csv\<close> parses, an array-file container with
  its cubes, or anything else. The file system is a table of directories, each with
  its entries; the path of an entry is the directory's path, a slash, and the name.
  The directory \<open>''''\<close> is the working directory.
\<close>

datatype content = RawTable dataframe | NetCDF "cube list" | Garbage

type_synonym fs = "(string \<times> (string \<times> content) list) list"

type_synonym 'a io = "fs \<Rightarrow> (error + 'a) \<times> fs"

definition rstrip_slash :: "string \<Rightarrow> string" where
  "rstrip_slash p = rev (dropWhile (\<lambda>c. c = CHR ''/'') (rev p))"

text \<open>\<^verbatim>\<open>os.path.split\<close> of posixpath: cut after the last slash, strip the slashes
  that end the head unless the head is nothing but slashes.\<close>

definition os_path_split :: "string \<Rightarrow> string \<times> string" where
  "os_path_split p =
     (let tail = rev (takeWhile (\<lambda>c. c \<noteq> CHR ''/'') (rev p));
          head = take (length p - length tail) p
      in (if head \<noteq> [] \<and> rstrip_slash head \<noteq> [] then rstrip_slash head else head, tail))"

definition lookup_file :: "fs \<Rightarrow> string \<Rightarrow> content option" where
  "lookup_file fs p =
     (case map_of fs (fst (os_path_split p)) of
        None \<Rightarrow> None
      | Some entries \<Rightarrow> map_of entries (snd (os_path_split p)))"

definition os_path_exists :: "fs \<Rightarrow> string \<Rightarrow> bool" where
  "os_path_exists fs p = (p \<noteq> [] \<and> (lookup_file fs p \<noteq> None \<or> map_of fs p \<noteq> None))"

subsection \<open>nextPath\<close>

text \<open>
  A path pattern with its one conversion \<^verbatim>\<open>%s\<close>: the text before it and the text
  after it. \<open>percent pat i\<close> is \<^verbatim>\<open>path_pattern % i\<close>.
\<close>

type_synonym pattern = "string \<times> string"

definition percent :: "pattern \<Rightarrow> nat \<Rightarrow> string" where
  "percent pat i = fst pat @ str i @ snd pat"

text \<open>The exponential search: \<^verbatim>\<open>while os.path.exists(path_pattern % i): i = i * 2\<close>.
  It is the one loop of the program without an evident bound, so not returning is
  the value \<open>None\<close>.\<close>

partial_function (option) exp_search :: "(nat \<Rightarrow> bool) \<Rightarrow> nat \<Rightarrow> nat option" where
  "exp_search ex i = (if ex i then exp_search ex (i * 2) else Some i)"

text \<open>The bisection of the interval \<open>(a..b]\<close>.\<close>

function bin_search :: "(nat \<Rightarrow> bool) \<Rightarrow> nat \<Rightarrow> nat \<Rightarrow> nat" where
  "bin_search ex a b =
     (if a + 1 < b
      then (let c = (a + b) div 2
            in if ex c then bin_search ex c b else bin_search ex a c)
      else b)"
  by pat_completeness auto
termination
  by (relation "measure (\<lambda>(ex, a, b). b - a)") auto

declare bin_search.simps [simp del]

definition nextPath :: "fs \<Rightarrow> pattern \<Rightarrow> string option" where
  "nextPath fs path_pattern =
     (case exp_search (\<lambda>i. os_path_exists fs (percent path_pattern i)) 1 of
        None \<Rightarrow> None
      | Some i \<Rightarrow>
          Some (percent path_pattern
                  (bin_search (\<lambda>c. os_path_exists fs (percent path_pattern c)) (i div 2) i)))"

subsection \<open>Static tables\<close>

definition countries :: "(string \<times> nat) list" where
  "countries = [(''malawi'', 0), (''safrica'', 1), (''tanzania'', 2), (''zambia'', 3)]"

definition crops :: "(string \<times> nat) list" where
  "crops = [(''cassava'', 0), (''groundnut'', 1), (''maize'', 2), (''millet'', 3),
            (''potato'', 4), (''rice'', 5), (''sorghum'', 6), (''soybean'', 7),
            (''sugarcane'', 8), (''sweetpot'', 9), (''wheat'', 10)]"

definition models :: "(string \<times> nat) list" where
  "models = [(''bcc-csm1-1'', 0), (''bcc-csm1-1-m'', 1), (''BNU-ESM'', 2), (''CanESM2'', 3),
             (''CNRM-CM5'', 4), (''CSIRO-Mk3-6-0'', 5), (''GFDL-CM3'', 6), (''GFDL-ESM2G'', 7),
             (''GFDL-ESM2M'', 8), (''IPSL-CM5A-LR'', 9), (''IPSL-CM5A-MR'', 10), (''MIROC5'', 11),
             (''MIROC-ESM'', 12), (''MIROC-ESM-CHEM'', 13), (''MPI-ESM-LR'', 14),
             (''MPI-ESM-MR'', 15), (''MRI-CGCM3'', 16), (''NorESM1-M'', 17)]"

definition rcps :: "(string \<times> nat) list" where
  "rcps = [(''rcp26'', 0), (''rcp85'', 2)]"

definition prod_lst :: "string list" where
  "prod_lst = [''0.1'', ''0.2'', ''0.3'', ''0.4'', ''0.5'', ''0.6'', ''0.7'', ''0.8'', ''0.9'', ''1'']"

definition irr_lst :: "string list" where
  "irr_lst = [''0'', ''0.1'', ''0.2'', ''0.3'', ''0.4'', ''0.5'', ''0.6'', ''0.7'', ''0.8'', ''0.9'',
              ''1'', ''2'']"

text \<open>The dictionaries \<^verbatim>\<open>column\<close>, \<^verbatim>\<open>var_nm\<close> and \<^verbatim>\<open>var_units\<close>, keyed by the
  number of the column.\<close>

definition column :: "(nat \<times> string) list" where
  "column = [
     (1, ''Year''), (2, ''Latitude''), (3, ''Longitude''), (4, ''Planting date''),
     (5, ''Final crop stage (ISTG)''), (6, ''Mean root length density by volume''),
     (7, ''LAI (specifically RLAI (2))''), (8, ''Yield''), (9, ''Biomass''),
     (10, ''Empty (irrigated fraction; SLA)''), (11, ''Harvest index''),
     (12, ''Cumulative rain''), (13, ''Solar radiation''), (14, ''Total soil water''),
     (15, ''Transpiration''), (16, ''Evapotranspiration_1''),
     (17, ''Potential evapotranspiration (limited by soil transport, LAI and energy)''),
     (18, ''Soil water stress factor''), (19, ''Evapotranspiration_2''), (20, ''Runoff''),
     (21, ''Cumulative runoff''), (22, ''Potential (root-limited) uptake''),
     (23, ''Cumulative potential uptake''), (24, ''Drainage''), (25, ''Cumulative drainage''),
     (26, ''Potential (energy-limited) transpiration''),
     (27, ''Cumulative potential transpiration''), (28, ''Cumulative evaporation''),
     (29, ''Max LAI during growing season''), (30, ''Cumulative potential evaporation''),
     (31, ''Cumulative transpiration''), (32, ''Root length density by area''),
     (33, ''Root Length Density by Area / LAI''), (34, ''Rainfall''),
     (35, ''Change in soil moisture''), (36, ''Absorbed radiation''), (37, ''Duration''),
     (38, ''Mean vapour pressure deficit''), (39, ''Tot net radiation''),
     (40, ''Total percentage of pods setting (TOTPP)''),
     (41, ''Total percentage of pods setting considering temperature only (TOTPP_HIT)''),
     (42, ''Total percentage of pods setting considering water stress only (TOTPP_WAT)''),
     (43, ''Mean temperature during the crop season (planting to harvest).''),
     (44, ''Factor DHDT is reduced by due to heat stress when HTS=1 or 2 (HT_FAC)''),
     (45, ''TOTWHARVDEP''), (46, ''STORED_WATER''),
     (47, ''Panicle initiation date (DOY - Sorghum only)''),
     (48, ''Flowering date (DOY - Sorghum only)''),
     (49, ''Total supplementary irrigation added to VOLSW (1) if using SUP irrigation'')]"

definition var_nm :: "(nat \<times> string) list" where
  "var_nm = [
     (1, ''year''), (2, ''latitude''), (3, ''longitude''), (4, ''plant_date''),
     (5, ''istg_final''), (6, ''rlv_mean''), (7, ''rlai_2''), (8, ''yield''), (9, ''biomass''),
     (10, ''sla''), (11, ''harv_index''), (12, ''tot_rain''), (13, ''srad_final''),
     (14, ''soil_wat''), (15, ''trans''), (16, ''evtrans1''), (17, ''pot_evtrans''),
     (18, ''soil_wat_fac''), (19, ''evtrans2''), (20, ''runoff''), (21, ''tot_runoff''),
     (22, ''pot_uptake''), (23, ''tot_pot_uptake''), (24, ''drainage''), (25, ''tot_drainage''),
     (26, ''pot_trans''), (27, ''tot_pot_trans''), (28, ''tot_evap''), (29, ''lai_max''),
     (30, ''tot_pot_ev''), (31, ''tot_trans''), (32, ''rla''), (33, ''rla_over_lai''),
     (34, ''rain_final''), (35, ''d_soil_moist''), (36, ''t_rad_abs''), (37, ''dur''),
     (38, ''mean_vap_pres_def''), (39, ''Tot_net_rad''), (40, ''tot_per_pod''),
     (41, ''tot_per_pod_hit''), (42, ''tot_per_pod_wat''), (43, ''mean_temp''),
     (44, ''dhdt_fac''), (45, ''totwharvdep''), (46, ''stor_wat''), (47, ''pan_init_date''),
     (48, ''flowr_date''), (49, ''tot_irr_sup'')]"

definition var_units :: "(nat \<times> string) list" where
  "var_units = [
     (1, ''year''), (2, ''degrees_north''), (3, ''degrees_east''), (4, ''days''), (5, ''1''),
     (6, ''cm/cm^3''), (7, ''m^2/m^2''), (8, ''kg/ha''), (9, ''kg/ha''), (10, ''1''),
     (11, ''1''), (12, ''cm''), (13, ''MJ/m^2''), (14, ''cm''), (15, ''cm''), (16, ''cm''),
     (17, ''cm''), (18, ''1''), (19, ''cm''), (20, ''cm''), (21, ''cm''), (22, ''cm''),
     (23, ''cm''), (24, ''cm''), (25, ''cm''), (26, ''cm''), (27, ''cm''), (28, ''cm''),
     (29, ''m^2/m^2''), (30, ''cm''), (31, ''cm''), (32, ''cm/cm^2''), (33, ''cm/cm^2''),
     (34, ''cm''), (35, ''cm''), (36, ''MJ/m^2''), (37, ''days''), (38, ''kPa''),
     (39, ''MJ/m^2''), (40, ''%''), (41, ''%''), (42, ''%''), (43, ''celsius''), (44, ''1''),
     (45, ''cm''), (46, ''cm''), (47, ''day''), (48, ''day''), (49, ''cm'')]"

subsection \<open>Strings and numbers of the Python library\<close>

text \<open>\<^verbatim>\<open>s.split(sep)\<close> for a one-character separator.\<close>

fun split_on :: "char \<Rightarrow> string \<Rightarrow> string list" where
  "split_on sep [] = [[]]"
| "split_on sep (c # cs) =
     (if c = sep then [] # split_on sep cs
      else (let ws = split_on sep cs in (c # hd ws) # tl ws))"

text \<open>\<^verbatim>\<open>xs[-k]\<close> for \<open>k > 0\<close>.\<close>

definition from_end :: "'a list \<Rightarrow> nat \<Rightarrow> error + 'a" where
  "from_end xs k = (if 0 < k \<and> k \<le> length xs then Inr (xs ! (length xs - k)) else Inl IndexError)"

definition is_digit :: "char \<Rightarrow> bool" where
  "is_digit c = (CHR ''0'' \<le> c \<and> c \<le> CHR ''9'')"

definition digits_val :: "string \<Rightarrow> nat" where
  "digits_val ds = foldl (\<lambda>acc c. 10 * acc + (of_char c - 48)) 0 ds"

text \<open>
  \<^verbatim>\<open>float(s)\<close> on the plain decimal spellings, digits with an optional point, which
  are those of \<^verbatim>\<open>prod_lst\<close> and \<^verbatim>\<open>irr_lst\<close>; the value is the decimal the string
  spells. Python's other spellings of a float (a sign, an exponent, \<^verbatim>\<open>inf\<close>,
  \<^verbatim>\<open>nan\<close>, blanks, underscores) are not modelled and count as malformed.
\<close>

definition py_float :: "string \<Rightarrow> error + rat" where
  "py_float s =
     (let ip = takeWhile is_digit s; rest = dropWhile is_digit s
      in if rest = [] then (if ip = [] then Inl ValueError else Inr (of_nat (digits_val ip)))
         else if hd rest = CHR ''.'' \<and> list_all is_digit (tl rest) \<and> (ip \<noteq> [] \<or> tl rest \<noteq> [])
         then Inr (of_nat (digits_val ip) + of_nat (digits_val (tl rest)) / 10 ^ length (tl rest))
         else Inl ValueError)"

text \<open>\<^verbatim>\<open>int(x)\<close> of a number, as a size: truncation towards zero; a negative
  size never arises below, since a maximum is not less than a minimum.\<close>

definition py_int :: "rat \<Rightarrow> nat" where
  "py_int x = nat \<lfloor>x\<rfloor>"

text \<open>\<^verbatim>\<open>np.linspace(start, stop, num)\<close>: \<^verbatim>\<open>start + arange(num) * step\<close> with
  \<^verbatim>\<open>step = (stop - start) / (num - 1)\<close>, and the single point \<^verbatim>\<open>start\<close> when
  \<^verbatim>\<open>num\<close> is one.\<close>

definition linspace :: "rat \<Rightarrow> rat \<Rightarrow> nat \<Rightarrow> rat list" where
  "linspace start stop num =
     (if num = 1 then [start]
      else map (\<lambda>i. start + of_nat i * ((stop - start) / of_nat (num - 1))) [0..<num])"

text \<open>\<^verbatim>\<open>np.where(points == x)[0][0]\<close>: the first index of \<open>x\<close>, an IndexError
  when there is none.\<close>

fun where_first :: "rat list \<Rightarrow> rat \<Rightarrow> nat option" where
  "where_first [] x = None"
| "where_first (p # ps) x = (if p = x then Some 0 else map_option Suc (where_first ps x))"

definition masked_equal :: "ndarray \<Rightarrow> rat \<Rightarrow> masked_array" where
  "masked_equal x v = \<lparr>ma_data = x, ma_mask = map (map (\<lambda>y. y = v)) x, fill_value = v\<rparr>"

text \<open>An array that is not masked, with numpy's default fill value.\<close>

definition plain_array :: "ndarray \<Rightarrow> masked_array" where
  "plain_array x = \<lparr>ma_data = x, ma_mask = map (map (\<lambda>y. False)) x, fill_value = 10 ^ 20\<rparr>"


subsection \<open>Data frames\<close>

fun index_of :: "'a list \<Rightarrow> 'a \<Rightarrow> nat option" where
  "index_of [] x = None"
| "index_of (y # ys) x = (if y = x then Some 0 else map_option Suc (index_of ys x))"

text \<open>\<^verbatim>\<open>df['Vk']\<close>: the column, a KeyError when the header lacks it.\<close>

definition df_col :: "dataframe \<Rightarrow> nat \<Rightarrow> error + rat list" where
  "df_col df k =
     (case index_of (columns df) k of
        None \<Rightarrow> Inl KeyError
      | Some p \<Rightarrow> Inr (map (\<lambda>r. r ! p) (rows df)))"

text \<open>\<^verbatim>\<open>row['Vk']\<close> for a row of \<^verbatim>\<open>df.iterrows()\<close>.\<close>

definition row_get :: "dataframe \<Rightarrow> rat list \<Rightarrow> nat \<Rightarrow> error + rat" where
  "row_get df row k =
     (case index_of (columns df) k of
        None \<Rightarrow> Inl KeyError
      | Some p \<Rightarrow> if p < length row then Inr (row ! p) else Inl KeyError)"


definition list_max :: "rat list \<Rightarrow> rat" where
  "list_max xs = fold max (tl xs) (hd xs)"

definition list_min :: "rat list \<Rightarrow> rat" where
  "list_min xs = fold min (tl xs) (hd xs)"

subsection \<open>readascii\<close>

definition pd_read_csv :: "fs \<Rightarrow> string \<Rightarrow> dataframe option" where
  "pd_read_csv fs path = (case lookup_file fs path of Some (RawTable df) \<Rightarrow> Some df | _ \<Rightarrow> None)"

type_synonym dimvals = "nat \<times> nat \<times> nat \<times> nat"

text \<open>The inner loop: every row writes its value of column \<open>col\<close> into the cell
  of its latitude and longitude.\<close>

fun fill_rows :: "dataframe \<Rightarrow> rat list \<Rightarrow> rat list \<Rightarrow> nat \<Rightarrow> rat list list \<Rightarrow> ndarray
    \<Rightarrow> error + ndarray" where
  "fill_rows df lat_pts lon_pts col [] g = Inr g"
| "fill_rows df lat_pts lon_pts col (row # rest) g =
     (case row_get df row 2 of Inl e \<Rightarrow> Inl e | Inr lat \<Rightarrow>
     (case row_get df row 3 of Inl e \<Rightarrow> Inl e | Inr lon \<Rightarrow>
     (case row_get df row col of Inl e \<Rightarrow> Inl e | Inr v \<Rightarrow>
     (case where_first lat_pts lat of None \<Rightarrow> Inl IndexError | Some a \<Rightarrow>
     (case where_first lon_pts lon of None \<Rightarrow> Inl IndexError | Some b \<Rightarrow>
        (if a < length g \<and> b < length (g ! a)
         then fill_rows df lat_pts lon_pts col rest (g[a := (g ! a)[b := v]])
         else Inl IndexError))))))"

text \<open>One layer: the template with the filled array, masked where it still holds
  the sentinel, and with the names of the column.\<close>

definition cube_layer :: "cube \<Rightarrow> ndarray \<Rightarrow> string \<Rightarrow> string \<Rightarrow> string \<Rightarrow> cube" where
  "cube_layer cube_templ g lname u nm =
     (let m = masked_equal g (- 99);
          m' = m\<lparr>fill_value := - 99\<rparr>
      in cube_templ\<lparr>cube_data := m', long_name := lname, units := u, var_name := nm\<rparr>)"

text \<open>The outer loop over the columns of the frame; \<open>cube_templ\<close> is copied for
  every column above the third.\<close>

fun layers :: "dataframe \<Rightarrow> cube \<Rightarrow> nat list \<Rightarrow> error + cube list" where
  "layers df cube_templ [] = Inr []"
| "layers df cube_templ (col # cols) =
     (if col > 3 then
        (case fill_rows df (latitude cube_templ) (longitude cube_templ) col (rows df)
                (ma_data (cube_data cube_templ)) of
           Inl e \<Rightarrow> Inl e
         | Inr g \<Rightarrow>
            (case map_of column col of None \<Rightarrow> Inl KeyError | Some lname \<Rightarrow>
            (case map_of var_units col of None \<Rightarrow> Inl KeyError | Some u \<Rightarrow>
            (case map_of var_nm col of None \<Rightarrow> Inl KeyError | Some nm \<Rightarrow>
            (case layers df cube_templ cols of
               Inl e \<Rightarrow> Inl e
             | Inr cubelist \<Rightarrow> Inr (cube_layer cube_templ g lname u nm # cubelist))))))
      else layers df cube_templ cols)"

text \<open>The template cube: the sentinel-filled array and the coordinates.\<close>

definition cube_templ_of :: "rat \<Rightarrow> rat list \<Rightarrow> rat list \<Rightarrow> rat \<Rightarrow> rat \<Rightarrow> dimvals \<Rightarrow> ndarray \<Rightarrow> cube" where
  "cube_templ_of t lat_pts lon_pts prodlev irrlev dimvals grid =
     (case dimvals of (country, crop, model, rcp) \<Rightarrow>
        \<lparr>var_name = ''unknown'', long_name = [], units = ''unknown'', time = t,
         latitude = lat_pts, longitude = lon_pts, prod_lev = prodlev, irr_lev = irrlev,
         rcp_dim = of_nat rcp, model_dim = of_nat model, crop_dim = of_nat crop,
         cube_data = plain_array grid\<rparr>)"

text \<open>The axis of a coordinate column: from its minimum to its maximum in steps
  of one half, \<^verbatim>\<open>np.linspace(s, n, int((n-s)*2)+1)\<close>.\<close>

definition mesh :: "rat list \<Rightarrow> rat list" where
  "mesh vs = linspace (list_min vs) (list_max vs) (py_int ((list_max vs - list_min vs) * 2) + 1)"

text \<open>The production level and the irrigation level, the third and the second
  field from the end of the file name.\<close>

definition levels :: "string \<Rightarrow> error + rat \<times> rat" where
  "levels filenm =
     (case from_end (split_on CHR ''_'' filenm) 3 of Inl err \<Rightarrow> Inl err | Inr ps \<Rightarrow>
     (case py_float ps of Inl err \<Rightarrow> Inl err | Inr prodlev \<Rightarrow>
     (case from_end (split_on CHR ''_'' filenm) 2 of Inl err \<Rightarrow> Inl err | Inr irs \<Rightarrow>
     (case py_float irs of Inl err \<Rightarrow> Inl err | Inr irrlev \<Rightarrow> Inr (prodlev, irrlev)))))"

definition readascii :: "fs \<Rightarrow> string \<Rightarrow> dimvals \<Rightarrow> error + cube list" where
  "readascii fs path dimvals =
     (case pd_read_csv fs path of None \<Rightarrow> Inl FileError | Some df \<Rightarrow>
     (let filenm = snd (os_path_split path) in
     (case df_col df 2 of Inl err \<Rightarrow> Inl err | Inr v2 \<Rightarrow>
     (case df_col df 3 of Inl err \<Rightarrow> Inl err | Inr v3 \<Rightarrow>
     (case df_col df 1 of Inl err \<Rightarrow> Inl err | Inr v1 \<Rightarrow>
     (if length v1 < 2 then Inl KeyError else
     (let n = list_max v2; s = list_min v2; e = list_max v3; w = list_min v3;
          time_coord = (if list_all (\<lambda>x. x = v1 ! 1) v1 then Some (v1 ! 1) else None) in
     (case levels filenm of Inl err \<Rightarrow> Inl err | Inr (prodlev, irrlev) \<Rightarrow>
     (let grid = replicate (py_int ((n - s) * 2 + 1)) (replicate (py_int ((e - w) * 2 + 1)) (- 99)) in
     (case time_coord of None \<Rightarrow> Inl UnboundLocalError | Some t \<Rightarrow>
        layers df (cube_templ_of t (mesh v2) (mesh v3) prodlev irrlev dimvals grid)
          (columns df)))))))))))"

text \<open>Vocabulary for the properties of \<open>readascii\<close>: the latitude and longitude
  of a row, the columns that become cubes, and the tables the loops accept.\<close>

definition coords :: "dataframe \<Rightarrow> rat list \<Rightarrow> (rat \<times> rat) option" where
  "coords df row =
     (case row_get df row 2 of Inl e \<Rightarrow> None | Inr lat \<Rightarrow>
     (case row_get df row 3 of Inl e \<Rightarrow> None | Inr lon \<Rightarrow> Some (lat, lon)))"

text \<open>The cell that the inner loop finds for a row.\<close>

definition cell_of :: "dataframe \<Rightarrow> rat list \<Rightarrow> rat list \<Rightarrow> rat list \<Rightarrow> (nat \<times> nat) option" where
  "cell_of df lat_pts lon_pts row =
     (case coords df row of None \<Rightarrow> None | Some (lat, lon) \<Rightarrow>
     (case where_first lat_pts lat of None \<Rightarrow> None | Some a \<Rightarrow>
     (case where_first lon_pts lon of None \<Rightarrow> None | Some b \<Rightarrow> Some (a, b))))"





subsection \<open>Writing and removing files\<close>

text \<open>Writing a file creates or replaces the entry; the directory must exist.\<close>

definition write_file :: "string \<Rightarrow> content \<Rightarrow> unit io" where
  "write_file p c fs =
     (case map_of fs (fst (os_path_split p)) of
        None \<Rightarrow> (Inl FileNotFoundError, fs)
      | Some entries \<Rightarrow>
          if snd (os_path_split p) = [] \<or> map_of fs p \<noteq> None then (Inl IsADirectoryError, fs)
          else (Inr (),
                AList.update (fst (os_path_split p))
                  (AList.update (snd (os_path_split p)) c entries) fs))"

text \<open>\<^verbatim>\<open>os.remove(file)\<close>.\<close>

definition os_remove :: "string \<Rightarrow> unit io" where
  "os_remove p fs =
     (case map_of fs (fst (os_path_split p)) of
        None \<Rightarrow> (Inl FileNotFoundError, fs)
      | Some entries \<Rightarrow>
          if map_of entries (snd (os_path_split p)) = None then (Inl FileNotFoundError, fs)
          else (Inr (),
                AList.update (fst (os_path_split p))
                  (AList.delete (snd (os_path_split p)) entries) fs))"

text \<open>\<^verbatim>\<open>os.makedirs(path)\<close>; the directories above \<open>path\<close> that it creates on
  the way are not recorded, nothing below looks at them.\<close>

definition os_makedirs :: "string \<Rightarrow> unit io" where
  "os_makedirs p fs =
     (if p = [] then (Inl FileNotFoundError, fs)
      else if os_path_exists fs p then (Inl FileExistsError, fs)
      else (Inr (), fs @ [(p, [])]))"

text \<open>\<^verbatim>\<open>iris.fileformats.netcdf.save(cube, outfile, zlib=True)\<close>.\<close>

definition iris_save :: "cube list \<Rightarrow> string \<Rightarrow> unit io" where
  "iris_save cubes outfile = write_file outfile (NetCDF cubes)"

subsection \<open>The libraries outside the program\<close>

text \<open>
  What the program calls and does not define: the concatenation of a cube list by
  iris, and the two operators of NCO, each with its input, its output path and its
  effect on the disk. They are parameters of everything below.
\<close>

record ext =
  concatenate :: "cube list \<Rightarrow> cube list"
  ncks :: "string \<Rightarrow> string \<Rightarrow> unit io"
  ncrcat :: "string list \<Rightarrow> string \<Rightarrow> unit io"

subsection \<open>outcube and fullyr\<close>

definition outcube :: "cube list \<Rightarrow> string \<Rightarrow> unit io" where
  "outcube cube fname fs =
     (if os_path_exists fs fname
      then (case nextPath fs (take (length fname - 3) fname @ ''_'', ''.nc'') of
              None \<Rightarrow> (Inl NonTermination, fs)
            | Some outfile \<Rightarrow> iris_save cube outfile fs)
      else iris_save cube fname fs)"

type_synonym valnames = "string \<times> string \<times> string \<times> string"

text \<open>The arguments that every year shares: \<^verbatim>\<open>[valnames, ascdir, dimvals, outfil]\<close>.\<close>

type_synonym args = "valnames \<times> string \<times> dimvals \<times> string"

definition filenm_of :: "valnames \<Rightarrow> string \<Rightarrow> string \<Rightarrow> string \<Rightarrow> string" where
  "filenm_of valnames yr prodv irrv =
     (case valnames of (country, crop, model, rcp) \<Rightarrow>
        crop @ ''_'' @ country @ ''_amma_'' @ model @ ''_'' @ rcp @ ''_Fut_'' @ yr @ ''_''
          @ prodv @ ''_'' @ irrv @ ''_1.out'')"

text \<open>The paths of the two nested loops, in the order the loops visit them.\<close>

definition table_paths :: "valnames \<Rightarrow> string \<Rightarrow> string \<Rightarrow> string list" where
  "table_paths valnames ascdir yr =
     concat (map (\<lambda>prodv. map (\<lambda>irrv. ascdir @ yr @ ''/'' @ filenm_of valnames yr prodv irrv) irr_lst)
               prod_lst)"

fun read_tables :: "fs \<Rightarrow> string list \<Rightarrow> dimvals \<Rightarrow> error + cube list" where
  "read_tables fs [] dimvals = Inr []"
| "read_tables fs (path # paths) dimvals =
     (case readascii fs path dimvals of
        Inl e \<Rightarrow> Inl e
      | Inr cubes \<Rightarrow>
          (case read_tables fs paths dimvals of
             Inl e \<Rightarrow> Inl e
           | Inr cubelst \<Rightarrow> Inr (cubes @ cubelst)))"

definition outnm_of :: "string \<Rightarrow> string \<Rightarrow> string" where
  "outnm_of outfil yr = outfil @ ''_'' @ yr @ ''.nc''"

definition fullyr :: "ext \<Rightarrow> string \<times> args \<Rightarrow> string io" where
  "fullyr X data fs =
     (case data of (yr, valnames, ascdir, dimvals, outfil) \<Rightarrow>
        (case read_tables fs (table_paths valnames ascdir yr) dimvals of
           Inl e \<Rightarrow> (Inl e, fs)
         | Inr cubelst \<Rightarrow>
             (case outcube (concatenate X cubelst) (outnm_of outfil yr) fs of
                (Inl e, fs') \<Rightarrow> (Inl e, fs')
              | (Inr u, fs') \<Rightarrow> (Inr (outnm_of outfil yr), fs'))))"

subsection \<open>getyrs\<close>

definition startswith :: "string \<Rightarrow> string \<Rightarrow> bool" where
  "startswith s pre = (take (length pre) s = pre)"

text \<open>
  \<^verbatim>\<open>os.walk(top)\<close>: every directory at or below the top directory with the
  names of its files, in the order of the directory table (the order of
  \<^verbatim>\<open>os.walk\<close> is the operating system's). The top directory itself is reported
  as the argument is written, a directory below it by its path.
\<close>

definition os_walk :: "fs \<Rightarrow> string \<Rightarrow> (string \<times> string list) list" where
  "os_walk fs topdir =
     map (\<lambda>(d, entries). (if d = rstrip_slash topdir then topdir else d, map fst entries))
       (filter (\<lambda>(d, entries). d = rstrip_slash topdir \<or> startswith d (rstrip_slash topdir @ ''/'')) fs)"

definition getyrs :: "fs \<Rightarrow> string \<Rightarrow> string list" where
  "getyrs fs locdir =
     filter (\<lambda>yr. yr \<noteq> [])
       (map (\<lambda>fol. last (split_on CHR ''/'' (fst fol)))
          (filter (\<lambda>fol. length (snd fol) \<ge> 120) (os_walk fs locdir)))"

subsection \<open>catdata\<close>

fun remove_all :: "string list \<Rightarrow> unit io" where
  "remove_all [] fs = (Inr (), fs)"
| "remove_all (file # files) fs =
     (case os_remove file fs of
        (Inl e, fs') \<Rightarrow> (Inl e, fs')
      | (Inr u, fs') \<Rightarrow> remove_all files fs')"

definition recdim_of :: "string \<Rightarrow> string" where
  "recdim_of first = take (length first - 3) first @ ''_recdim.nc''"

definition catdata :: "ext \<Rightarrow> string list \<Rightarrow> string \<Rightarrow> unit io" where
  "catdata X catlist outfil fs =
     (case catlist of
        [] \<Rightarrow> (Inl IndexError, fs)
      | first # others \<Rightarrow>
          (case ncks X first (recdim_of first) fs of
             (Inl e, fs1) \<Rightarrow> (Inl e, fs1)
           | (Inr u, fs1) \<Rightarrow>
               (case (if \<not> os_path_exists fs1 (fst (os_path_split (outfil @ ''.nc'')))
                      then os_makedirs (fst (os_path_split (outfil @ ''.nc''))) fs1
                      else (Inr (), fs1)) of
                  (Inl e, fs2) \<Rightarrow> (Inl e, fs2)
                | (Inr u, fs2) \<Rightarrow>
                    (case ncrcat X (recdim_of first # others) (outfil @ ''.nc'') fs2 of
                       (Inl e, fs3) \<Rightarrow> (Inl e, fs3)
                     | (Inr u, fs3) \<Rightarrow> remove_all (first # recdim_of first # others) fs3))))"

subsection \<open>The two schedulers\<close>

text \<open>\<^verbatim>\<open>[yrs, ascdir, valnames, procs, dimvals, outfil]\<close>.\<close>

type_synonym indata = "string list \<times> string \<times> valnames \<times> int \<times> dimvals \<times> string"

text \<open>The loop of \<^verbatim>\<open>singleprocess_rcp\<close>: the first exception ends it.\<close>

fun years_loop :: "ext \<Rightarrow> (string \<times> args) list \<Rightarrow> string list \<Rightarrow> (string list) io" where
  "years_loop X [] yearlist fs = (Inr yearlist, fs)"
| "years_loop X (data # itterable) yearlist fs =
     (case fullyr X data fs of
        (Inl e, fs') \<Rightarrow> (Inl e, fs')
      | (Inr outnm, fs') \<Rightarrow> years_loop X itterable (yearlist @ [outnm]) fs')"

definition singleprocess_rcp :: "ext \<Rightarrow> indata \<Rightarrow> unit io" where
  "singleprocess_rcp X indata fs =
     (case indata of (yrs, ascdir, valnames, procs, dimvals, outfil) \<Rightarrow>
        (case years_loop X (map (\<lambda>yr. (yr, valnames, ascdir, dimvals, outfil)) yrs) [] fs of
           (Inl e, fs') \<Rightarrow> (Inl e, fs')
         | (Inr yearlist, fs') \<Rightarrow> catdata X (sort yearlist) outfil fs'))"

text \<open>\<^verbatim>\<open>np.array_split(ary, n)\<close> for a number of sections: the first
  \<^verbatim>\<open>len(ary) % n\<close> sections have one element more than the others.\<close>

fun chop :: "nat list \<Rightarrow> 'a list \<Rightarrow> 'a list list" where
  "chop [] xs = []"
| "chop (k # ks) xs = take k xs # chop ks (drop k xs)"

definition array_split :: "'a list \<Rightarrow> nat \<Rightarrow> error + 'a list list" where
  "array_split ary nsections =
     (if nsections = 0 then Inl ValueError
      else Inr (chop (replicate (length ary mod nsections) (length ary div nsections + 1)
                      @ replicate (nsections - length ary mod nsections) (length ary div nsections))
                  ary))"

text \<open>
  \<^verbatim>\<open>pool.map(f, chunk)\<close>. Every task of the chunk runs, also after one of them has
  raised; the results come back in the order of the chunk, whatever the order in which
  the workers finish; an exception of a task is raised again by \<^verbatim>\<open>map\<close> once all
  tasks are done. The tasks are taken as running one after the other in the order
  of the chunk: the interleaving of the workers' reads and writes is not modelled.
\<close>

fun run_tasks :: "('a \<Rightarrow> 'b io) \<Rightarrow> 'a list \<Rightarrow> fs \<Rightarrow> (error + 'b) list \<times> fs" where
  "run_tasks f [] fs = ([], fs)"
| "run_tasks f (x # xs) fs =
     (case f x fs of (r, fs') \<Rightarrow>
        (case run_tasks f xs fs' of (rs, fs'') \<Rightarrow> (r # rs, fs'')))"

fun gather :: "(error + 'b) list \<Rightarrow> error + 'b list" where
  "gather [] = Inr []"
| "gather (Inl e # rs) = Inl e"
| "gather (Inr v # rs) = (case gather rs of Inl e \<Rightarrow> Inl e | Inr vs \<Rightarrow> Inr (v # vs))"

definition pool_map :: "('a \<Rightarrow> 'b io) \<Rightarrow> 'a list \<Rightarrow> ('b list) io" where
  "pool_map f chunk fs = (case run_tasks f chunk fs of (rs, fs') \<Rightarrow> (gather rs, fs'))"

fun chunks_loop :: "ext \<Rightarrow> (string \<times> args) list list \<Rightarrow> string list \<Rightarrow> (string list) io" where
  "chunks_loop X [] yearlist fs = (Inr yearlist, fs)"
| "chunks_loop X (chunk # list_of_chunks) yearlist fs =
     (case pool_map (fullyr X) chunk fs of
        (Inl e, fs') \<Rightarrow> (Inl e, fs')
      | (Inr outnms, fs') \<Rightarrow> chunks_loop X list_of_chunks (yearlist @ outnms) fs')"

text \<open>
  The year list that \<^verbatim>\<open>multiprocess_rcp\<close> collects. \<^verbatim>\<open>len(itterable)/locproc\<close>
  is a true division, which \<^verbatim>\<open>array_split\<close> truncates with \<^verbatim>\<open>int\<close>: a division by
  zero when there is no year or no process, a number of sections that is not positive
  when \<^verbatim>\<open>procs\<close> is negative, and the integer quotient otherwise.
\<close>

definition collect_multi :: "ext \<Rightarrow> indata \<Rightarrow> (string list) io" where
  "collect_multi X indata fs =
     (case indata of (yrs, ascdir, valnames, procs, dimvals, outfil) \<Rightarrow>
        (let locproc = min (int (length yrs)) procs;
             itterable = map (\<lambda>yr. (yr, valnames, ascdir, dimvals, outfil)) yrs
         in if locproc = 0 then (Inl ZeroDivisionError, fs)
            else if locproc < 0 then (Inl ValueError, fs)
            else (case array_split itterable (length itterable div nat locproc) of
                    Inl e \<Rightarrow> (Inl e, fs)
                  | Inr list_of_chunks \<Rightarrow> chunks_loop X list_of_chunks [] fs)))"

definition multiprocess_rcp :: "ext \<Rightarrow> indata \<Rightarrow> unit io" where
  "multiprocess_rcp X indata fs =
     (case collect_multi X indata fs of
        (Inl e, fs') \<Rightarrow> (Inl e, fs')
      | (Inr yearlist, fs') \<Rightarrow> catdata X (sort yearlist) (snd (snd (snd (snd (snd indata))))) fs')"

subsection \<open>main\<close>

text \<open>\<^verbatim>\<open>readargs\<close> is outside the model; \<open>main\<close> starts from what it returns.\<close>

definition main :: "ext \<Rightarrow> string \<times> valnames \<times> int \<times> string \<Rightarrow> unit io" where
  "main X parsed fs =
     (case parsed of (ascdir, (country, crop, model, rcp), NBR_PROCESSES, outfil) \<Rightarrow>
        (let yrs = getyrs fs ascdir in
         (case (map_of countries country, map_of crops crop, map_of models model, map_of rcps rcp) of
            (Some c0, Some c1, Some c2, Some c3) \<Rightarrow>
              (if NBR_PROCESSES > 1
               then multiprocess_rcp X
                      (yrs, ascdir, (country, crop, model, rcp), NBR_PROCESSES, (c0, c1, c2, c3), outfil) fs
               else singleprocess_rcp X
                      (yrs, ascdir, (country, crop, model, rcp), NBR_PROCESSES, (c0, c1, c2, c3), outfil) fs)
          | _ \<Rightarrow> (Inl ArgumentsError, fs))))"

section \<open>Example inputs\<close>

text \<open>An output directory where the yearly file of 1980 and its first two renamed
  copies are present.\<close>

definition out_dir_1980 :: fs where
  "out_dir_1980 =
     [(''out'', [(''maize_1980.nc'', NetCDF []), (''maize_1980_1.nc'', NetCDF []),
                 (''maize_1980_2.nc'', NetCDF [])])]"




text \<open>One raw table of the year 1980 in its directory, under the name the
  program expects for production level 0.1 and irrigation level 0.\<close>

definition ex_path :: string where
  "ex_path = ''data/1980/maize_malawi_amma_bcc-csm1-1_rcp26_Fut_1980_0.1_0_1.out''"

definition ex_dimvals :: dimvals where
  "ex_dimvals = (0, 2, 0, 0)"

definition fs_with :: "dataframe \<Rightarrow> fs" where
  "fs_with df =
     [(''data/1980'', [(''maize_malawi_amma_bcc-csm1-1_rcp26_Fut_1980_0.1_0_1.out'', RawTable df)])]"



text \<open>A table with rows of two years.\<close>

definition mixed_table :: dataframe where
  "mixed_table = \<lparr>columns = [1, 2, 3, 4],
                  rows = [[1980, 1, 10, 7], [1981, 2, 21 / 2, 8]]\<rparr>"


section \<open>Decimal numerals and paths\<close>

lemma digit_char_inj: "a < 10 \<Longrightarrow> b < 10 \<Longrightarrow> digit_char a = digit_char b \<Longrightarrow> a = b"
proof -
  assume a: "a < 10" and b: "b < 10" and e: "digit_char a = digit_char b"
  have "distinct ''0123456789''" by simp
  moreover have "a < length ''0123456789''" "b < length ''0123456789''" using a b by simp_all
  ultimately show ?thesis using e unfolding digit_char_def by (simp only: nth_eq_iff_index_eq)
qed

lemma str_nonempty: "str n \<noteq> []"
  by (subst str.simps) simp

lemma length_str_one: "length (str n) = 1 \<longleftrightarrow> n < 10"
proof (cases "n < 10")
  case True
  then have e: "str n = [digit_char n]" by (subst str.simps) simp
  show ?thesis using True by (simp add: e)
next
  case False
  have "length (str n) = length (str (n div 10)) + 1" using False by (subst str.simps) simp
  moreover have "length (str (n div 10)) > 0" using str_nonempty by simp
  ultimately show ?thesis using False by simp
qed

lemma str_inj: "str a = str b \<Longrightarrow> a = b"
proof (induction a arbitrary: b rule: str.induct)
  case (1 n)
  show ?case
  proof (cases "n < 10")
    case True
    then have "length (str n) = 1" using length_str_one[of n] by simp
    then have b: "b < 10" using "1.prems" length_str_one by metis
    have "str n = [digit_char n]" "str b = [digit_char b]"
      using True b by (subst str.simps, simp)+
    then show ?thesis using "1.prems" True b digit_char_inj by auto
  next
    case False
    then have "length (str n) \<noteq> 1" using length_str_one[of n] by simp
    then have b: "\<not> b < 10" using "1.prems" length_str_one by metis
    have sn: "str n = str (n div 10) @ [digit_char (n mod 10)]"
      using False by (subst str.simps) simp
    have sb: "str b = str (b div 10) @ [digit_char (b mod 10)]"
      using b by (subst str.simps) simp
    from sn sb "1.prems" have e: "str (n div 10) = str (b div 10)"
      "digit_char (n mod 10) = digit_char (b mod 10)" by auto
    from "1.IH"[OF False e(1)] have "n div 10 = b div 10" .
    moreover have "n mod 10 = b mod 10" using e(2) digit_char_inj[of "n mod 10" "b mod 10"] by simp
    ultimately show ?thesis by (metis div_mult_mod_eq)
  qed
qed

lemma digit_char_is_digit: "d < 10 \<Longrightarrow> is_digit (digit_char d)"
proof -
  assume "d < 10"
  then have "digit_char d \<in> set ''0123456789''" unfolding digit_char_def by (simp only: nth_mem length_Cons list.size)
  then show ?thesis by (auto simp: is_digit_def)
qed

lemma str_digits: "\<forall>c\<in>set (str n). is_digit c"
proof (induction n rule: str.induct)
  case (1 n)
  show ?case
  proof (cases "n < 10")
    case True
    then show ?thesis by (subst str.simps) (simp add: digit_char_is_digit)
  next
    case False
    then show ?thesis using 1 by (subst str.simps) (simp add: digit_char_is_digit)
  qed
qed

lemma is_digit_not_slash: "is_digit c \<Longrightarrow> c \<noteq> CHR ''/''"
  by (auto simp: is_digit_def)

lemma os_path_split_join:
  assumes "CHR ''/'' \<notin> set t" "h \<noteq> []" "last h \<noteq> CHR ''/''"
  shows "os_path_split (h @ CHR ''/'' # t) = (h, t)"
proof -
  have tw: "takeWhile (\<lambda>c. c \<noteq> CHR ''/'') (rev (h @ CHR ''/'' # t)) = rev t"
    using assms(1) by (auto simp: takeWhile_tail)
  have hd: "take (length (h @ CHR ''/'' # t) - length (rev (rev t))) (h @ CHR ''/'' # t) = h @ ''/''"
    by simp
  have "hd (rev h) \<noteq> CHR ''/''" using assms(2,3) by (simp add: hd_rev)
  then have "dropWhile (\<lambda>c. c = CHR ''/'') (rev h) = rev h"
    using assms(2) by (cases "rev h") auto
  then have rs: "rstrip_slash (h @ ''/'') = h" by (simp add: rstrip_slash_def)
  show ?thesis unfolding os_path_split_def Let_def tw hd rs using assms(2) by simp
qed

section \<open>Properties of nextPath\<close>

lemma exp_search_contiguous:
  assumes ex: "\<forall>i\<ge>1. ex i \<longleftrightarrow> i < N"
  shows "1 \<le> i \<Longrightarrow> \<exists>b. exp_search ex i = Some b \<and> N \<le> b \<and> i \<le> b \<and> (b = i \<or> b div 2 < N)"
proof (induction "N - i" arbitrary: i rule: less_induct)
  case less
  show ?case
  proof (cases "ex i")
    case False
    with ex less.prems have "N \<le> i" by auto
    with False show ?thesis by (subst exp_search.simps) simp
  next
    case True
    with ex less.prems have lt: "i < N" by auto
    then have "N - i * 2 < N - i" using less.prems by arith
    moreover have "1 \<le> i * 2" using less.prems by arith
    ultimately obtain b where b: "exp_search ex (i * 2) = Some b" "N \<le> b" "i * 2 \<le> b"
      "b = i * 2 \<or> b div 2 < N"
      using less.hyps by blast
    have "b div 2 < N" using b(4) lt by auto
    moreover have "exp_search ex i = Some b"
      using True b(1) by (subst exp_search.simps) simp
    ultimately show ?thesis using b(2,3) by auto
  qed
qed

lemma bin_search_contiguous:
  assumes ex: "\<forall>i\<ge>1. ex i \<longleftrightarrow> i < N"
  shows "a < N \<Longrightarrow> N \<le> b \<Longrightarrow> bin_search ex a b = N"
proof (induction "b - a" arbitrary: a b rule: less_induct)
  case less
  show ?case
  proof (cases "a + 1 < b")
    case False
    with less.prems have "b = N" by arith
    with False show ?thesis by (subst bin_search.simps) simp
  next
    case True
    let ?c = "(a + b) div 2"
    have c: "a < ?c" "?c < b" "1 \<le> ?c" using True by arith+
    show ?thesis
    proof (cases "ex ?c")
      case exc: True
      then have "?c < N" using ex c(3) by blast
      moreover have "b - ?c < b - a" using c by arith
      ultimately have "bin_search ex ?c b = N" using less.hyps less.prems(2) by blast
      then show ?thesis using True exc by (subst bin_search.simps) (simp add: Let_def)
    next
      case nex: False
      then have "N \<le> ?c" using ex c(3) by (meson not_le_imp_less)
      moreover have "?c - a < b - a" using c by arith
      ultimately have "bin_search ex a ?c = N" using less.hyps less.prems(1) by blast
      then show ?thesis using True nex by (subst bin_search.simps) (simp add: Let_def)
    qed
  qed
qed

text \<open>
  C8. If, among the paths \<open>path_pattern % i\<close> with \<open>i \<ge> 1\<close>, exactly those with
  \<open>i < N\<close> exist, then \<open>nextPath\<close> returns, and returns the path with suffix \<open>N\<close>.
\<close>

theorem nextPath_contiguous:
  assumes N: "1 \<le> N"
    and ex: "\<forall>i\<ge>1. os_path_exists fs (percent path_pattern i) \<longleftrightarrow> i < N"
  shows "nextPath fs path_pattern = Some (percent path_pattern N)"
proof -
  let ?ex = "\<lambda>i. os_path_exists fs (percent path_pattern i)"
  obtain b where b: "exp_search ?ex 1 = Some b" "N \<le> b" "b = 1 \<or> b div 2 < N"
    using exp_search_contiguous[of ?ex N 1] ex by auto
  have "b div 2 < N" using b(3) N by auto
  then have "bin_search ?ex (b div 2) b = N"
    using bin_search_contiguous[of ?ex N "b div 2" b] ex b(2) by simp
  then show ?thesis using b(1) by (simp add: nextPath_def)
qed

lemma str_small: "str 1 = ''1''" "str 2 = ''2''" "str 3 = ''3''"
  by (simp_all add: str.simps digit_char_def)

lemma out_dir_1980_split:
  "os_path_split (percent (''out/maize_1980_'', ''.nc'') i) = (''out'', ''maize_1980_'' @ str i @ ''.nc'')"
proof -
  have "CHR ''/'' \<notin> set (''maize_1980_'' @ str i @ ''.nc'')"
    using str_digits[of i] is_digit_not_slash by auto
  from os_path_split_join[OF this, of "''out''"] show ?thesis by (simp add: percent_def)
qed

lemma out_dir_1980_suffix:
  "str i @ ''.nc'' = ''1.nc'' \<longleftrightarrow> i = 1" "str i @ ''.nc'' = ''2.nc'' \<longleftrightarrow> i = 2"
  using str_inj[of i 1] str_inj[of i 2] str_small by auto

lemma out_dir_1980_no_dir: "map_of out_dir_1980 (percent (''out/maize_1980_'', ''.nc'') i) = None"
  by (simp add: out_dir_1980_def percent_def)

lemma out_dir_1980_lookup:
  "lookup_file out_dir_1980 (percent (''out/maize_1980_'', ''.nc'') i) \<noteq> None \<longleftrightarrow> i = 1 \<or> i = 2"
  unfolding lookup_file_def out_dir_1980_split
  by (simp add: out_dir_1980_def out_dir_1980_suffix eq_commute[of "''1.nc''"] eq_commute[of "''2.nc''"])

lemma out_dir_1980_exists:
  "os_path_exists out_dir_1980 (percent (''out/maize_1980_'', ''.nc'') i) \<longleftrightarrow> i = 1 \<or> i = 2"
  unfolding os_path_exists_def out_dir_1980_no_dir out_dir_1980_lookup by (simp add: percent_def)

text \<open>Witness of C8: with the renamed copies 1 and 2 present, the next path is copy 3.\<close>

theorem nextPath_contiguous_witness:
  "nextPath out_dir_1980 (''out/maize_1980_'', ''.nc'') = Some ''out/maize_1980_3.nc''"
proof -
  have "\<forall>i\<ge>1. os_path_exists out_dir_1980 (percent (''out/maize_1980_'', ''.nc'') i) \<longleftrightarrow> i < 3"
    unfolding out_dir_1980_exists by auto
  from nextPath_contiguous[of 3, OF _ this] show ?thesis by (simp add: percent_def str_small)
qed

section \<open>Properties of readascii\<close>




















lemma update_same:
  "a < length g \<Longrightarrow> b < length (g ! a) \<Longrightarrow> (g[a := (g ! a)[b := v]]) ! a ! b = v"
  by simp













lemma templ_fields [simp]:
  "latitude (cube_templ_of t la lo p i dv g) = la"
  "longitude (cube_templ_of t la lo p i dv g) = lo"
  "ma_data (cube_data (cube_templ_of t la lo p i dv g)) = g"
  by (cases dv; simp add: cube_templ_of_def plain_array_def)+

lemma layer_fields [simp]:
  "latitude (cube_layer templ g lname u nm) = latitude templ"
  "longitude (cube_layer templ g lname u nm) = longitude templ"
  "ma_data (cube_data (cube_layer templ g lname u nm)) = g"
  by (simp_all add: cube_layer_def Let_def masked_equal_def)










lemma replicate_cell: "i < nlat \<Longrightarrow> j < nlon \<Longrightarrow> replicate nlat (replicate nlon x) ! i ! j = x"
  by simp


lemma coords_total:
  assumes "cell_of df la lo r = Some (a, b)"
  obtains lat lon where "coords df r = Some (lat, lon)"
  using assms by (auto simp: cell_of_def split: option.splits)




lemma ex_split: "os_path_split ex_path = (''data/1980'', ''maize_malawi_amma_bcc-csm1-1_rcp26_Fut_1980_0.1_0_1.out'')"
  by (simp add: ex_path_def os_path_split_def rstrip_slash_def Let_def)

lemma ex_read: "pd_read_csv (fs_with df) ex_path = Some df"
  by (simp add: pd_read_csv_def lookup_file_def ex_split fs_with_def)

lemma ex_levels: "levels (snd (os_path_split ex_path)) = Inr (1 / 10, 0)"
  unfolding ex_split by (simp add: levels_def from_end_def py_float_def is_digit_def digits_val_def Let_def)




























text \<open>
  C2. On a table whose two rows carry the years 1980 and 1981, \<open>readascii\<close> does not
  return arrays: after the two messages the variable \<open>time\<close> is still unbound when the
  template cube is built, and the call ends with an UnboundLocalError.
\<close>

theorem readascii_mixed_years:
  "readascii (fs_with mixed_table) ex_path ex_dimvals = Inl UnboundLocalError"
  by (simp add: readascii_def ex_read ex_levels Let_def df_col_def mixed_table_def)

end
